theory Spec2Isabelle
  imports Complex_Main
begin

section \<open>Numbers\<close>

text \<open>
  Every number of \<^verbatim>\<open>src/App.jsx\<close> is a JavaScript number. The embedding reads them as
  exact reals: \<^verbatim>\<open>Math.max\<close>, \<^verbatim>\<open>Math.min\<close>, \<^verbatim>\<open>Math.abs\<close> and \<^verbatim>\<open>Math.sin\<close> are
  \<^const>\<open>max\<close>, \<^const>\<open>min\<close>, \<^const>\<open>abs\<close> and \<^const>\<open>sin\<close>, and \<^verbatim>\<open>Math.floor\<close> is
  \<^const>\<open>floor\<close>. Rounding, infinities and NaN are outside the model.
\<close>

text \<open>
  The remainder operator \<^verbatim>\<open>a % b\<close>: the quotient is truncated towards zero, so the
  result carries the sign of the dividend.
\<close>

definition js_trunc :: "real \<Rightarrow> int" where
  "js_trunc a = (if 0 \<le> a then \<lfloor>a\<rfloor> else \<lceil>a\<rceil>)"

definition js_rem :: "real \<Rightarrow> real \<Rightarrow> real" where
  "js_rem a b = a - b * of_int (js_trunc (a / b))"

section \<open>Deterministic noise\<close>

text \<open>
  \<^verbatim>\<open>const pseudoRandom = (x, y) =>
    Math.abs(Math.sin(x * 12.9898 + y * 78.233) * 43758.5453) % 1;\<close>
\<close>

definition pseudoRandom :: "real \<Rightarrow> real \<Rightarrow> real" where
  "pseudoRandom x y = js_rem \<bar>sin (x * 12.9898 + y * 78.233) * 43758.5453\<bar> 1"

section \<open>The particle scene\<close>

subsection \<open>State\<close>

record vec3 =
  vx :: real
  vy :: real
  vz :: real

text \<open>
  A particle as \<^verbatim>\<open>init\<close> pushes it, with the three properties of its mesh that
  \<^verbatim>\<open>animate\<close> writes: position, the x and y Euler angles, and the scale vector.
\<close>

record particle =
  mesh_position :: vec3
  mesh_rotation_x :: real
  mesh_rotation_y :: real
  mesh_scale :: vec3
  startPos :: vec3
  endPos :: vec3
  rotSpeed_x :: real
  rotSpeed_y :: real
  delay :: real

record group =
  group_rotation_y :: real
  group_rotation_z :: real

text \<open>The object logged by \<^verbatim>\<open>console.log('Scroll Debug:', ...)\<close>.\<close>

record scroll_debug =
  rectTop :: real
  rectHeight :: real
  dbg_viewportHeight :: real
  dbg_totalDistance :: real
  dbg_calculatedProgress :: real
  isStickyActive :: bool

text \<open>
  The two refs, the closure variables \<^verbatim>\<open>particleGroup\<close> (undefined until \<^verbatim>\<open>init\<close> has
  built it) and \<^verbatim>\<open>particles\<close>, the console, and a trace \<open>divisors\<close> holding the right
  operand of every \<^verbatim>\<open>/\<close> the scroll handler evaluates, in order.
\<close>

record scene =
  targetScrollProgress :: real
  scrollProgress :: real
  particleGroup :: "group option"
  particles :: "particle list"
  console :: "scroll_debug list"
  divisors :: "real list"

text \<open>What \<^verbatim>\<open>getBoundingClientRect\<close> returns, as far as the handler reads it.\<close>

record DOMRect =
  rect_top :: real
  rect_height :: real
  rect_bottom :: real

subsection \<open>The scroll handler\<close>

text \<open>
  \<^verbatim>\<open>onScroll\<close> takes \<^verbatim>\<open>containerRef.current\<close> (\<open>None\<close> when the ref is empty, else the
  bounding rectangle read from it) and \<^verbatim>\<open>window.innerHeight\<close>. The conditional
  expression computing \<^verbatim>\<open>calculatedProgress\<close> and the guarded assignment are two
  separate evaluations of the same quotient, each recorded in \<open>divisors\<close>.
\<close>

definition onScroll :: "DOMRect option \<Rightarrow> real \<Rightarrow> scene \<Rightarrow> scene" where
  "onScroll containerRef innerHeight s =
     (case containerRef of
        None \<Rightarrow> s
      | Some rect \<Rightarrow>
          let viewportHeight = innerHeight;
              totalDistance = rect_height rect - viewportHeight;
              calculatedProgress =
                (if totalDistance > 0
                 then max 0 (min 1 (- rect_top rect / totalDistance)) else 0);
              s1 = (if totalDistance > 0
                    then s\<lparr>divisors := divisors s @ [totalDistance]\<rparr> else s);
              s2 = s1\<lparr>console := console s1 @
                     [\<lparr>rectTop = rect_top rect, rectHeight = rect_height rect,
                       dbg_viewportHeight = viewportHeight,
                       dbg_totalDistance = totalDistance,
                       dbg_calculatedProgress = calculatedProgress,
                       isStickyActive =
                         (rect_top rect \<le> 0 \<and> rect_bottom rect \<ge> viewportHeight)\<rparr>]\<rparr>
          in if totalDistance > 0
             then s2\<lparr>targetScrollProgress :=
                        max 0 (min 1 (- rect_top rect / totalDistance)),
                     divisors := divisors s2 @ [totalDistance]\<rparr>
             else s2)"

text \<open>
  The formula of the specification's contract for the mapper, written as the
  specification words it: \<^verbatim>\<open>clamp((viewportHeight - top) / (containerHeight -
  viewportHeight), 0, 1)\<close>.
\<close>

definition spec_progress :: "real \<Rightarrow> real \<Rightarrow> real \<Rightarrow> real" where
  "spec_progress containerHeight top_offset viewportHeight =
     max 0 (min 1 ((viewportHeight - top_offset) / (containerHeight - viewportHeight)))"

subsection \<open>The frame callback\<close>

text \<open>\<^verbatim>\<open>CONFIG.rotationSpeed\<close>.\<close>

definition rotationSpeed :: real where
  "rotationSpeed = 0.002"

text \<open>\<^verbatim>\<open>Vector3.lerpVectors(v1, v2, alpha)\<close> of three.js: componentwise
  \<^verbatim>\<open>v1 + (v2 - v1) * alpha\<close>.\<close>

definition lerpVectors :: "vec3 \<Rightarrow> vec3 \<Rightarrow> real \<Rightarrow> vec3" where
  "lerpVectors v1 v2 alpha =
     \<lparr>vx = vx v1 + (vx v2 - vx v1) * alpha,
      vy = vy v1 + (vy v2 - vy v1) * alpha,
      vz = vz v1 + (vz v2 - vz v1) * alpha\<rparr>"

text \<open>\<^verbatim>\<open>Vector3.setScalar(s)\<close>.\<close>

definition setScalar :: "real \<Rightarrow> vec3" where
  "setScalar s = \<lparr>vx = s, vy = s, vz = s\<rparr>"

text \<open>
  The three local values of the \<^verbatim>\<open>forEach\<close> body: the clamped \<^verbatim>\<open>localProgress\<close>,
  the eased \<^verbatim>\<open>t\<close> and \<^verbatim>\<open>scale\<close>.
\<close>

definition localProgress :: "real \<Rightarrow> particle \<Rightarrow> real" where
  "localProgress sp p = max 0 (min 1 ((sp * 1.5) - (delay p * 0.5)))"

definition ease :: "real \<Rightarrow> real" where
  "ease lp = (if lp < 0.5 then 2 * lp * lp else - 1 + (4 - 2 * lp) * lp)"

definition bump_scale :: "real \<Rightarrow> real" where
  "bump_scale t = 1 + (sin (t * pi) * 0.5)"

definition update_particle :: "real \<Rightarrow> particle \<Rightarrow> particle" where
  "update_particle sp p =
     (let t = ease (localProgress sp p)
      in p\<lparr>mesh_position := lerpVectors (startPos p) (endPos p) t,
           mesh_rotation_x := mesh_rotation_x p + rotSpeed_x p,
           mesh_rotation_y := mesh_rotation_y p + rotSpeed_y p,
           mesh_scale := setScalar (bump_scale t)\<rparr>)"

text \<open>
  One call of \<^verbatim>\<open>animate\<close>: damping, group rotation, particle update. Scheduling the
  next frame and drawing leave the scene's state as it is.
\<close>

definition animate :: "scene \<Rightarrow> scene" where
  "animate s =
     (let sp = scrollProgress s + (targetScrollProgress s - scrollProgress s) * 0.05;
          currentRotSpeed = rotationSpeed + (sp * 0.002)
      in s\<lparr>scrollProgress := sp,
           particleGroup :=
             (case particleGroup s of
                None \<Rightarrow> None
              | Some g \<Rightarrow>
                  Some (g\<lparr>group_rotation_y := group_rotation_y g + currentRotSpeed,
                          group_rotation_z :=
                            group_rotation_z g + currentRotSpeed * 0.2\<rparr>)),
           particles := map (update_particle sp) (particles s)\<rparr>)"

text \<open>
  A sample particle: the mesh at a start position of the lattice, unit scale, some end
  position, no delay.
\<close>

definition particle0 :: particle where
  "particle0 =
     \<lparr>mesh_position = \<lparr>vx = - 7 / 4, vy = 1 / 4, vz = 3 / 4\<rparr>,
      mesh_rotation_x = 0, mesh_rotation_y = 0,
      mesh_scale = \<lparr>vx = 1, vy = 1, vz = 1\<rparr>,
      startPos = \<lparr>vx = - 7 / 4, vy = 1 / 4, vz = 3 / 4\<rparr>,
      endPos = \<lparr>vx = - 3, vy = 1, vz = 2\<rparr>,
      rotSpeed_x = 1 / 100, rotSpeed_y = - 1 / 100, delay = 0\<rparr>"

text \<open>The scene before \<^verbatim>\<open>init\<close>: both refs are \<^verbatim>\<open>useRef(0)\<close>, nothing is built or logged.\<close>

definition scene0 :: scene where
  "scene0 =
     \<lparr>targetScrollProgress = 0, scrollProgress = 0, particleGroup = None,
      particles = [], console = [], divisors = []\<rparr>"

section \<open>The canvas background\<close>

definition palette :: "string list" where
  "palette =
     [''#eef2ff'', ''#e0e7ff'',
      ''#c7d2fe'', ''#a5b4fc'', ''#818cf8'',
      ''#6366f1'', ''#fca5a5'', ''#86efac'', ''#fde047'',
      ''#94a3b8'', ''#64748b'']"

text \<open>
  \<^verbatim>\<open>scrollRef\<close> and \<^verbatim>\<open>touchedPixels\<close>. The keys of the map are the strings
  \<^verbatim>\<open>`${x},${y}`\<close> of two integers, read here as the pair itself.
\<close>

record pixels =
  scrollRef :: real
  touchedPixels :: "int \<times> int \<rightharpoonup> real"

definition cellSize :: int where
  "cellSize = 12"

text \<open>
  The colour index of one cell, from \<^verbatim>\<open>let colorIndex = 0\<close> to the line
  \<^verbatim>\<open>if (colorIndex >= palette.length) colorIndex = 0\<close>. The first argument is the
  cell's entry in the map: \<open>None\<close> when \<^verbatim>\<open>isTouched\<close> is false, else \<^verbatim>\<open>touchMod\<close>.
\<close>

definition blended_index :: "real \<Rightarrow> real \<Rightarrow> real \<Rightarrow> int" where
  "blended_index noiseVal touchMod currentScroll =
     \<lfloor>(noiseVal + touchMod + (currentScroll * 0.001)) * (real (length palette) - 2)\<rfloor> + 2"

definition colorIndex :: "real option \<Rightarrow> real \<Rightarrow> real \<Rightarrow> int" where
  "colorIndex entry noiseVal currentScroll =
     (let ci = (case entry of
                  Some touchMod \<Rightarrow> blended_index noiseVal touchMod currentScroll
                | None \<Rightarrow> \<lfloor>noiseVal * real (length palette) * 1.5\<rfloor>)
      in if ci \<ge> int (length palette) then 0 else ci)"

text \<open>
  \<^verbatim>\<open>palette[colorIndex] || palette[2]\<close>: an index outside the array reads
  \<^verbatim>\<open>undefined\<close>, and every entry of the palette is a non-empty string.
\<close>

definition fill_colour :: "int \<Rightarrow> string" where
  "fill_colour ci =
     (if 0 \<le> ci \<and> ci < int (length palette) then palette ! nat ci else palette ! 2)"

text \<open>A call \<^verbatim>\<open>ctx.fillRect(x, y, w, h)\<close> with the \<^verbatim>\<open>fillStyle\<close> in force.\<close>

record fillRect =
  fillStyle :: string
  rx :: int
  ry :: int
  rw :: int
  rh :: int

definition render_cell :: "pixels \<Rightarrow> int \<Rightarrow> int \<Rightarrow> fillRect list" where
  "render_cell ps x y =
     (let currentScroll = scrollRef ps;
          scrollFactor = \<lfloor>currentScroll / 4\<rfloor>;
          entry = touchedPixels ps (x, y);
          noiseVal = pseudoRandom (of_int x) (of_int (y + scrollFactor));
          ci = colorIndex entry noiseVal currentScroll
      in if ci > 1 \<or> entry \<noteq> None
         then [\<lparr>fillStyle = fill_colour ci, rx = x * cellSize, ry = y * cellSize,
                 rw = cellSize - 1, rh = cellSize - 1\<rparr>]
         else [])"

text \<open>
  One frame of \<^verbatim>\<open>render\<close> for a window of the given inner width and height: the
  clearing rectangle, then the cells row by row.
\<close>

definition render :: "pixels \<Rightarrow> int \<Rightarrow> int \<Rightarrow> fillRect list" where
  "render ps width height =
     (let cols = \<lceil>of_int width / (of_int cellSize :: real)\<rceil>;
          rows = \<lceil>of_int height / (of_int cellSize :: real)\<rceil>
      in \<lparr>fillStyle = ''#f8fafc'', rx = 0, ry = 0, rw = width, rh = height\<rparr> #
         concat (map (\<lambda>y. concat (map (\<lambda>x. render_cell ps x y) [0..cols - 1]))
                     [0..rows - 1]))"

section \<open>The hero state machine\<close>

datatype hero = initial | transitioning | swapped

datatype overflow = overflow_hidden | overflow_auto

text \<open>The two callbacks the component hands to \<^verbatim>\<open>setTimeout\<close>.\<close>

datatype callback = ShowModal | Swap

text \<open>
  The state of \<^verbatim>\<open>App\<close>: its two pieces of React state, \<^verbatim>\<open>window.scrollY\<close>,
  \<^verbatim>\<open>document.body.style.overflow\<close>, the pending timeouts with the milliseconds each
  still has to wait, and whether \<^verbatim>\<open>handleInput\<close> is registered for \<^verbatim>\<open>wheel\<close> and
  \<^verbatim>\<open>touchmove\<close>.
\<close>

record app =
  heroState :: hero
  showModal :: bool
  scrollY :: real
  body_overflow :: overflow
  timeouts :: "(nat \<times> callback) list"
  handleInput_attached :: bool

text \<open>The events \<^verbatim>\<open>handleInput\<close> listens to: \<^verbatim>\<open>wheel\<close> with its \<^verbatim>\<open>deltaY\<close>,
  and \<^verbatim>\<open>touchmove\<close>.\<close>

datatype input = wheel real | touchmove

definition handleScrollReset :: "app \<Rightarrow> app" where
  "handleScrollReset a =
     (if scrollY a < 50 \<and> heroState a = swapped then a\<lparr>heroState := initial\<rparr> else a)"

definition handleInput :: "input \<Rightarrow> app \<Rightarrow> app" where
  "handleInput e a =
     (if showModal a then a
      else if heroState a \<noteq> initial then a
      else if (case e of wheel deltaY \<Rightarrow> deltaY \<le> 0 | touchmove \<Rightarrow> False) then a
      else a\<lparr>heroState := transitioning, timeouts := timeouts a @ [(1500, Swap)]\<rparr>)"

text \<open>
  The scroll-jacking effect: its body, and the cleanup it returned. The early
  \<^verbatim>\<open>return\<close> for a scrolled page returns no cleanup and registers nothing.
\<close>

definition scrollJackCleanup :: "app \<Rightarrow> app" where
  "scrollJackCleanup a =
     (if handleInput_attached a
      then a\<lparr>handleInput_attached := False, body_overflow := overflow_auto\<rparr>
      else a)"

definition scrollJackEffect :: "app \<Rightarrow> app" where
  "scrollJackEffect a =
     (if scrollY a > 50 then a\<lparr>body_overflow := overflow_auto\<rparr>
      else (if heroState a = initial then a\<lparr>body_overflow := overflow_hidden\<rparr> else a)
             \<lparr>handleInput_attached := True\<rparr>)"

text \<open>
  React runs the effect again when \<^verbatim>\<open>heroState\<close> or \<^verbatim>\<open>showModal\<close> has changed: the
  old cleanup first, then the body. The model lets this happen at the end of the
  handler that changed the state.
\<close>

definition commit :: "app \<Rightarrow> app \<Rightarrow> app" where
  "commit old new =
     (if heroState new \<noteq> heroState old \<or> showModal new \<noteq> showModal old
      then scrollJackEffect (scrollJackCleanup new) else new)"

definition run_callback :: "app \<Rightarrow> callback \<Rightarrow> app" where
  "run_callback a c =
     (case c of
        ShowModal \<Rightarrow> commit a (a\<lparr>showModal := True\<rparr>)
      | Swap \<Rightarrow> commit a (a\<lparr>heroState := swapped, body_overflow := overflow_auto\<rparr>))"

text \<open>
  The passing of \<open>d\<close> milliseconds: the timeouts that are due run, earliest first and
  in the order they were set among equals; the others wait \<open>d\<close> less.
\<close>

definition elapse :: "nat \<Rightarrow> app \<Rightarrow> app" where
  "elapse d a =
     (let due = sort_key fst (filter (\<lambda>(r, c). r \<le> d) (timeouts a));
          later = map (\<lambda>(r, c). (r - d, c)) (filter (\<lambda>(r, c). \<not> r \<le> d) (timeouts a))
      in foldl run_callback (a\<lparr>timeouts := later\<rparr>) (map snd due))"

datatype event = Input input | Scroll real | Elapse nat | CloseModal

fun step :: "event \<Rightarrow> app \<Rightarrow> app" where
  "step (Input e) a = (if handleInput_attached a then commit a (handleInput e a) else a)"
| "step (Scroll y) a = commit a (handleScrollReset (a\<lparr>scrollY := y\<rparr>))"
| "step (Elapse d) a = elapse d a"
| "step CloseModal a = commit a (a\<lparr>showModal := False\<rparr>)"

text \<open>
  The component as mounted on a page scrolled to \<open>y\<close>: the initial hero state, the
  half-second timeout of the announcement, and the first run of the effect.
\<close>

definition mount :: "real \<Rightarrow> app" where
  "mount y =
     scrollJackEffect
       \<lparr>heroState = (if y > 50 then swapped else initial), showModal = False,
        scrollY = y, body_overflow = overflow_auto, timeouts = [(500, ShowModal)],
        handleInput_attached = False\<rparr>"

text \<open>
  A run that ends with the hero \<open>initial\<close>, the page near the top and no modal, yet
  with \<^verbatim>\<open>handleInput\<close> not registered: the page is mounted at the top and scrolled to
  300px, the announcement opens after half a second and is closed, both times
  re-running the effect on a scrolled page, and the page is scrolled back to 10px.
\<close>

definition unregistered_run :: app where
  "unregistered_run =
     step (Scroll 10) (step CloseModal (step (Elapse 500) (step (Scroll 300) (mount 0))))"

section \<open>The scroll-progress mapper\<close>

lemma onScroll_None: "onScroll None vh s = s"
  by (simp add: onScroll_def)

lemma onScroll_target:
  "targetScrollProgress (onScroll (Some rect) vh s) =
     (if rect_height rect - vh > 0
      then max 0 (min 1 (- rect_top rect / (rect_height rect - vh)))
      else targetScrollProgress s)"
  by (simp add: onScroll_def Let_def)

lemma onScroll_divisors:
  "divisors (onScroll (Some rect) vh s) =
     (if rect_height rect - vh > 0
      then divisors s @ [rect_height rect - vh, rect_height rect - vh]
      else divisors s)"
  by (simp add: onScroll_def Let_def)

text \<open>
  Claim C1, as the specification's contract states it, gives the target the value
  \<open>clamp((viewportHeight - top) / (containerHeight - viewportHeight), 0, 1)\<close>. The
  handler divides \<open>- top\<close>, not \<open>viewportHeight - top\<close>: for a container of height 500
  at offset 0 in a viewport of height 100 it stores 0, where the formula gives 1/4.
\<close>

theorem onScroll_differs_from_spec_formula:
  "targetScrollProgress
     (onScroll (Some \<lparr>rect_top = 0, rect_height = 500, rect_bottom = 500\<rparr>) 100
        (scene0\<lparr>targetScrollProgress := 7 / 10\<rparr>)) = 0
   \<and> spec_progress 500 0 100 = 1 / 4
   \<and> targetScrollProgress
     (onScroll (Some \<lparr>rect_top = 0, rect_height = 500, rect_bottom = 500\<rparr>) 100
        (scene0\<lparr>targetScrollProgress := 7 / 10\<rparr>)) \<noteq> spec_progress 500 0 100"
  by (simp add: onScroll_target spec_progress_def scene0_def)

text \<open>
  Claim C1, amended: on every scroll event where the container of height
  \<open>containerHeight\<close> is at offset \<open>top\<close> from the viewport top, the viewport has height
  \<open>viewportHeight\<close> and \<open>containerHeight - viewportHeight\<close> is positive, \<^verbatim>\<open>onScroll\<close>
  sets the target progress to \<open>clamp(- top / (containerHeight - viewportHeight), 0, 1)\<close>.
\<close>

theorem onScroll_sets_clamped_progress:
  "0 < rect_height rect - vh \<Longrightarrow>
     targetScrollProgress (onScroll (Some rect) vh s) =
       max 0 (min 1 (- rect_top rect / (rect_height rect - vh)))"
  by (simp add: onScroll_target)

theorem onScroll_sets_clamped_progress_witness:
  "targetScrollProgress
     (onScroll (Some \<lparr>rect_top = - 100, rect_height = 500, rect_bottom = 400\<rparr>) 100 scene0)
   = 1 / 4"
  using onScroll_sets_clamped_progress
    [of "\<lparr>rect_top = - 100, rect_height = 500, rect_bottom = 400\<rparr>" 100 scene0]
  by simp

text \<open>
  Claim C2: in a viewport of positive height \<open>vh\<close>, a container of height \<open>5 * vh\<close> at
  offset \<open>- 2 * vh\<close> gives progress 1/2, and at offset 0 gives progress 0; and whatever
  the height \<open>ch > vh\<close> of the container, every offset \<open>t \<le> - (ch - vh)\<close> gives
  progress 1.
\<close>

theorem onScroll_sample_points:
  "(0 < vh \<longrightarrow>
      targetScrollProgress
        (onScroll (Some \<lparr>rect_top = - 2 * vh, rect_height = 5 * vh, rect_bottom = b\<rparr>) vh s)
        = 1 / 2
      \<and> targetScrollProgress
        (onScroll (Some \<lparr>rect_top = 0, rect_height = 5 * vh, rect_bottom = b\<rparr>) vh s) = 0)
   \<and> (\<forall>ch t. vh < ch \<and> t \<le> - (ch - vh) \<longrightarrow>
        targetScrollProgress
          (onScroll (Some \<lparr>rect_top = t, rect_height = ch, rect_bottom = b\<rparr>) vh s) = 1)"
proof (intro conjI impI allI)
  assume vh: "0 < vh"
  then show "targetScrollProgress
      (onScroll (Some \<lparr>rect_top = - 2 * vh, rect_height = 5 * vh, rect_bottom = b\<rparr>) vh s)
      = 1 / 2"
    by (simp add: onScroll_target)
  from vh show "targetScrollProgress
      (onScroll (Some \<lparr>rect_top = 0, rect_height = 5 * vh, rect_bottom = b\<rparr>) vh s) = 0"
    by (simp add: onScroll_target)
next
  fix ch t :: real
  assume h: "vh < ch \<and> t \<le> - (ch - vh)"
  then have "1 \<le> - t / (ch - vh)"
    by (simp add: field_simps)
  with h show "targetScrollProgress
      (onScroll (Some \<lparr>rect_top = t, rect_height = ch, rect_bottom = b\<rparr>) vh s) = 1"
    by (simp add: onScroll_target)
qed

theorem onScroll_sample_points_witness:
  "targetScrollProgress
     (onScroll (Some \<lparr>rect_top = - 200, rect_height = 500, rect_bottom = 300\<rparr>) 100 scene0)
     = 1 / 2
   \<and> targetScrollProgress
     (onScroll (Some \<lparr>rect_top = 0, rect_height = 500, rect_bottom = 300\<rparr>) 100
        (scene0\<lparr>targetScrollProgress := 7 / 10\<rparr>)) = 0
   \<and> targetScrollProgress
     (onScroll (Some \<lparr>rect_top = - 450, rect_height = 500, rect_bottom = 300\<rparr>) 100 scene0)
     = 1"
  using onScroll_sample_points [of 100 300 scene0]
    onScroll_sample_points [of 100 300 "scene0\<lparr>targetScrollProgress := 7 / 10\<rparr>"]
  by simp

text \<open>
  Claim C8: when the scrollable distance \<open>containerHeight - viewportHeight\<close> is not
  positive, \<^verbatim>\<open>onScroll\<close> evaluates no division and leaves the target as it was; the
  target changes only when the distance is positive; and every divisor the handler
  ever uses is positive.
\<close>

theorem onScroll_short_container:
  "(\<not> 0 < rect_height rect - vh \<longrightarrow>
      divisors (onScroll (Some rect) vh s) = divisors s \<and>
      targetScrollProgress (onScroll (Some rect) vh s) = targetScrollProgress s)
   \<and> (targetScrollProgress (onScroll (Some rect) vh s) \<noteq> targetScrollProgress s \<longrightarrow>
        0 < rect_height rect - vh)
   \<and> (\<exists>ds. divisors (onScroll c vh s) = divisors s @ ds \<and> (\<forall>d\<in>set ds. 0 < d))"
proof (intro conjI impI)
  assume "\<not> 0 < rect_height rect - vh"
  then show "divisors (onScroll (Some rect) vh s) = divisors s"
    and "targetScrollProgress (onScroll (Some rect) vh s) = targetScrollProgress s"
    by (simp_all add: onScroll_target onScroll_divisors)
next
  assume "targetScrollProgress (onScroll (Some rect) vh s) \<noteq> targetScrollProgress s"
  then show "0 < rect_height rect - vh"
    by (simp add: onScroll_target split: if_splits)
next
  show "\<exists>ds. divisors (onScroll c vh s) = divisors s @ ds \<and> (\<forall>d\<in>set ds. 0 < d)"
  proof (cases c)
    case None
    then show ?thesis by (simp add: onScroll_None)
  next
    case (Some r)
    then show ?thesis by (simp add: onScroll_divisors)
  qed
qed

theorem onScroll_short_container_witness:
  "divisors
     (onScroll (Some \<lparr>rect_top = 0, rect_height = 100, rect_bottom = 100\<rparr>) 100
        (scene0\<lparr>targetScrollProgress := 7 / 10\<rparr>)) = []
   \<and> targetScrollProgress
     (onScroll (Some \<lparr>rect_top = 0, rect_height = 100, rect_bottom = 100\<rparr>) 100
        (scene0\<lparr>targetScrollProgress := 7 / 10\<rparr>)) = 7 / 10
   \<and> divisors
     (onScroll (Some \<lparr>rect_top = - 10, rect_height = 500, rect_bottom = 490\<rparr>) 100 scene0)
     = [400, 400]"
  using onScroll_short_container
    [of "\<lparr>rect_top = 0, rect_height = 100, rect_bottom = 100\<rparr>" 100
        "scene0\<lparr>targetScrollProgress := 7 / 10\<rparr>" None]
  by (simp add: scene0_def onScroll_divisors)

section \<open>The frame callback of the particle scene\<close>

text \<open>
  Claim C7: each call of \<^verbatim>\<open>animate\<close> moves the damped progress by 5% of its gap to
  the target: the new value is \<open>old + 0.05 * (target - old)\<close>, whatever the two are.
\<close>

theorem animate_damping:
  "scrollProgress (animate s) =
     scrollProgress s + 0.05 * (targetScrollProgress s - scrollProgress s)"
  by (simp add: animate_def Let_def)

subsection \<open>Easing, interpolation and scale\<close>

lemma ease_0: "ease 0 = 0"
  by (simp add: ease_def)

lemma ease_1: "ease 1 = 1"
  by (simp add: ease_def)

lemma ease_half: "ease (1 / 2) = 1 / 2"
  by (simp add: ease_def)

lemma lerpVectors_0: "lerpVectors v1 v2 0 = v1"
  by (simp add: lerpVectors_def)

lemma lerpVectors_1: "lerpVectors v1 v2 1 = v2"
  by (simp add: lerpVectors_def)

lemma lerpVectors_convex:
  "lerpVectors v1 v2 t =
     \<lparr>vx = (1 - t) * vx v1 + t * vx v2,
      vy = (1 - t) * vy v1 + t * vy v2,
      vz = (1 - t) * vz v1 + t * vz v2\<rparr>"
  by (simp add: lerpVectors_def algebra_simps)

lemma bump_scale_0: "bump_scale 0 = 1"
  by (simp add: bump_scale_def)

lemma bump_scale_1: "bump_scale 1 = 1"
  by (simp add: bump_scale_def)

lemma bump_scale_half: "bump_scale (1 / 2) = 3 / 2"
  by (simp add: bump_scale_def)

lemma bump_scale_le: "bump_scale t \<le> 3 / 2"
proof -
  have "sin (t * pi) \<le> 1" by (rule sin_le_one)
  then show ?thesis by (simp add: bump_scale_def)
qed

lemma update_position:
  "mesh_position (update_particle sp p) =
     lerpVectors (startPos p) (endPos p) (ease (localProgress sp p))"
  by (simp add: update_particle_def Let_def)

lemma update_scale:
  "mesh_scale (update_particle sp p) = setScalar (bump_scale (ease (localProgress sp p)))"
  by (simp add: update_particle_def Let_def)

text \<open>
  Claim C6: a particle whose clamped local phase is 0 is placed at its start position,
  one whose phase is 1 at its end position, and in both cases its scale is 1; at phase
  1/2 the scale is 3/2, and at no phase is the scale larger than at phase 1/2.
\<close>

theorem particle_endpoints_and_scale:
  "(localProgress sp p = 0 \<longrightarrow>
      mesh_position (update_particle sp p) = startPos p \<and>
      mesh_scale (update_particle sp p) = setScalar 1)
   \<and> (localProgress sp p = 1 \<longrightarrow>
      mesh_position (update_particle sp p) = endPos p \<and>
      mesh_scale (update_particle sp p) = setScalar 1)
   \<and> (localProgress sp p = 1 / 2 \<longrightarrow>
      mesh_scale (update_particle sp p) = setScalar (3 / 2))
   \<and> bump_scale (ease lp) \<le> bump_scale (ease (1 / 2))"
proof (intro conjI impI)
  assume "localProgress sp p = 0"
  then show "mesh_position (update_particle sp p) = startPos p"
    and "mesh_scale (update_particle sp p) = setScalar 1"
    by (simp_all add: update_position update_scale ease_0 lerpVectors_0 bump_scale_0)
next
  assume "localProgress sp p = 1"
  then show "mesh_position (update_particle sp p) = endPos p"
    and "mesh_scale (update_particle sp p) = setScalar 1"
    by (simp_all add: update_position update_scale ease_1 lerpVectors_1 bump_scale_1)
next
  assume "localProgress sp p = 1 / 2"
  then show "mesh_scale (update_particle sp p) = setScalar (3 / 2)"
    by (simp only: update_scale ease_half bump_scale_half)
next
  show "bump_scale (ease lp) \<le> bump_scale (ease (1 / 2))"
    by (simp only: ease_half bump_scale_half bump_scale_le)
qed

theorem particle_endpoints_and_scale_witness:
  "localProgress 0 particle0 = 0
   \<and> mesh_position (update_particle 0 particle0) = \<lparr>vx = - 7 / 4, vy = 1 / 4, vz = 3 / 4\<rparr>
   \<and> localProgress 1 particle0 = 1
   \<and> mesh_position (update_particle 1 particle0) = \<lparr>vx = - 3, vy = 1, vz = 2\<rparr>
   \<and> localProgress (1 / 3) particle0 = 1 / 2
   \<and> mesh_scale (update_particle (1 / 3) particle0) = setScalar (3 / 2)"
proof -
  have a: "localProgress 0 particle0 = 0"
    and b: "localProgress 1 particle0 = 1"
    and c: "localProgress (1 / 3) particle0 = 1 / 2"
    by (simp_all add: localProgress_def particle0_def)
  show ?thesis
    using a b c particle_endpoints_and_scale [of 0 particle0]
      particle_endpoints_and_scale [of 1 particle0]
      particle_endpoints_and_scale [of "1 / 3" particle0]
    by (simp add: particle0_def)
qed

lemma localProgress_range: "0 \<le> localProgress sp p \<and> localProgress sp p \<le> 1"
  by (simp add: localProgress_def)

lemma ease_range:
  assumes "0 \<le> lp" "lp \<le> 1"
  shows "0 \<le> ease lp \<and> ease lp \<le> 1"
proof (cases "lp < 1 / 2")
  case True
  have "lp * lp \<le> (1 / 2) * (1 / 2)"
    using assms True by (intro mult_mono) auto
  then show ?thesis using True assms by (simp add: ease_def)
next
  case False
  have eq: "- 1 + (4 - 2 * lp) * lp = 1 - 2 * ((1 - lp) * (1 - lp))"
    by (simp add: algebra_simps)
  have nonneg: "0 \<le> (1 - lp) * (1 - lp)" by simp
  have "(1 - lp) * (1 - lp) \<le> (1 / 2) * (1 / 2)"
    using assms False by (intro mult_mono) auto
  then show ?thesis using False nonneg unfolding ease_def eq by simp
qed

lemma bump_scale_range:
  assumes "0 \<le> t" "t \<le> 1"
  shows "1 \<le> bump_scale t \<and> bump_scale t \<le> 3 / 2"
proof -
  have "t * pi \<le> 1 * pi" using assms by (intro mult_right_mono) auto
  then have "0 \<le> sin (t * pi)" using assms by (intro sin_ge_zero) auto
  then show ?thesis using bump_scale_le [of t] by (simp add: bump_scale_def)
qed

text \<open>
  Claim C10: whatever the damped progress \<open>sp\<close> and the particle's delay, the local
  phase is clamped to \<open>[0, 1]\<close>, the eased parameter lies in \<open>[0, 1]\<close>, the particle's
  new position is \<open>(1 - t) * start + t * end\<close> for some \<open>t\<close> in \<open>[0, 1]\<close>, and its scale
  is a factor between 1 and 3/2.
\<close>

theorem particle_stays_between_endpoints:
  "0 \<le> localProgress sp p \<and> localProgress sp p \<le> 1
   \<and> 0 \<le> ease (localProgress sp p) \<and> ease (localProgress sp p) \<le> 1
   \<and> (\<exists>t. 0 \<le> t \<and> t \<le> 1 \<and>
         mesh_position (update_particle sp p) =
           \<lparr>vx = (1 - t) * vx (startPos p) + t * vx (endPos p),
            vy = (1 - t) * vy (startPos p) + t * vy (endPos p),
            vz = (1 - t) * vz (startPos p) + t * vz (endPos p)\<rparr>)
   \<and> (\<exists>k. 1 \<le> k \<and> k \<le> 3 / 2 \<and> mesh_scale (update_particle sp p) = setScalar k)"
proof -
  let ?t = "ease (localProgress sp p)"
  have t: "0 \<le> ?t \<and> ?t \<le> 1"
    using localProgress_range [of sp p] by (simp add: ease_range)
  have k: "1 \<le> bump_scale ?t \<and> bump_scale ?t \<le> 3 / 2"
    using t by (intro bump_scale_range) auto
  show ?thesis
    using t k localProgress_range [of sp p] update_position [of sp p] update_scale [of sp p]
      lerpVectors_convex [of "startPos p" "endPos p" ?t]
    by metis
qed

section \<open>The noise function\<close>

lemma js_rem_one: "0 \<le> a \<Longrightarrow> js_rem a 1 = frac a"
  by (simp add: js_rem_def js_trunc_def frac_def)

text \<open>
  Claim C5: \<^verbatim>\<open>pseudoRandom\<close> depends on nothing but its two arguments, so equal
  arguments give equal results, and every result lies in \<open>[0, 1)\<close>.
\<close>

theorem pseudoRandom_deterministic_unit_interval:
  "0 \<le> pseudoRandom x y \<and> pseudoRandom x y < 1
   \<and> (\<forall>x' y'. x' = x \<and> y' = y \<longrightarrow> pseudoRandom x' y' = pseudoRandom x y)"
  by (simp add: pseudoRandom_def js_rem_one frac_lt_1)

theorem pseudoRandom_deterministic_unit_interval_witness:
  "0 \<le> pseudoRandom 0 0 \<and> pseudoRandom 0 0 < 1 \<and> pseudoRandom 0 0 = 0"
  using pseudoRandom_deterministic_unit_interval [of 0 0]
  by (simp add: pseudoRandom_def js_rem_def js_trunc_def)

section \<open>The colour index of a touched cell\<close>

lemma length_palette: "length palette = 11"
  by (simp add: palette_def)

lemma blended_index_ge:
  assumes "0 \<le> n" "0 \<le> tm" "0 \<le> sc"
  shows "2 \<le> blended_index n tm sc"
proof -
  have "0 \<le> (n + tm + sc * 0.001) * 9" using assms by simp
  then have "0 \<le> \<lfloor>(n + tm + sc * 0.001) * 9\<rfloor>" by (simp only: zero_le_floor)
  then show ?thesis by (simp add: blended_index_def length_palette)
qed

lemma nine_fold: "(9 \<le> v * 9) = (1 \<le> (v::real))"
  by auto

lemma blended_index_wrap:
  "int (length palette) \<le> blended_index n tm sc \<longleftrightarrow> 1 \<le> n + tm + sc * 0.001"
proof -
  have "(11 \<le> \<lfloor>(n + tm + sc * 0.001) * 9\<rfloor> + 2) = (9 \<le> \<lfloor>(n + tm + sc * 0.001) * 9\<rfloor>)"
    by linarith
  also have "\<dots> = (9 \<le> (n + tm + sc * 0.001) * 9)"
    by (simp add: le_floor_iff)
  also have "\<dots> = (1 \<le> n + tm + sc * 0.001)"
    by (rule nine_fold)
  finally show ?thesis by (simp add: blended_index_def length_palette)
qed

lemma colorIndex_touched:
  "colorIndex (Some tm) n sc =
     (if 1 \<le> n + tm + sc * 0.001 then 0 else blended_index n tm sc)"
  by (simp only: colorIndex_def Let_def option.case blended_index_wrap)

text \<open>
  Claim C3, as stated, places the index of every touched cell at 2 or above. With
  noise 1/2, intensity 1/2 and no scroll the blend is 1: the index before the wrap is
  11, which is the palette's length, the wrap resets it to 0, and the cell is painted
  with the first background shade.
\<close>

theorem touched_colour_index_wraps:
  "blended_index (1 / 2) (1 / 2) 0 = 11
   \<and> colorIndex (Some (1 / 2)) (1 / 2) 0 = 0
   \<and> fill_colour (colorIndex (Some (1 / 2)) (1 / 2) 0) = ''#eef2ff''"
  by (simp add: colorIndex_def blended_index_def fill_colour_def palette_def)

text \<open>
  Claim C3, amended: for a touched cell, noise and stored intensity in \<open>[0, 1)\<close> and a
  non-negative scroll offset, the index computed from the blend is at least 2 before
  the wrap at the palette's length. While the blend \<open>noise + intensity + 0.001 *
  scroll\<close> is below 1 the cell's colour index is that index and lies in the upper
  portion of the palette, from 2 to 10; once the blend reaches 1 the index reaches
  the palette's length and the colour index is reset to 0.
\<close>

theorem touched_colour_index:
  assumes "0 \<le> n" "n < 1" "0 \<le> tm" "tm < 1" "0 \<le> sc"
  shows "2 \<le> blended_index n tm sc
    \<and> (n + tm + sc * 0.001 < 1 \<longrightarrow>
         colorIndex (Some tm) n sc = blended_index n tm sc \<and>
         2 \<le> colorIndex (Some tm) n sc \<and> colorIndex (Some tm) n sc \<le> 10)
    \<and> (1 \<le> n + tm + sc * 0.001 \<longrightarrow> colorIndex (Some tm) n sc = 0)"
proof (intro conjI impI)
  show ge: "2 \<le> blended_index n tm sc"
    using assms by (simp add: blended_index_ge)
  {
    assume lt: "n + tm + sc * 0.001 < 1"
    then show eq: "colorIndex (Some tm) n sc = blended_index n tm sc"
      by (simp add: colorIndex_touched)
    show "2 \<le> colorIndex (Some tm) n sc"
      using ge eq by simp
    have "\<not> int (length palette) \<le> blended_index n tm sc"
      using lt by (simp add: blended_index_wrap)
    then show "colorIndex (Some tm) n sc \<le> 10"
      using eq by (simp add: length_palette)
  }
  {
    assume "1 \<le> n + tm + sc * 0.001"
    then show "colorIndex (Some tm) n sc = 0"
      by (simp add: colorIndex_touched)
  }
qed

theorem touched_colour_index_witness:
  "blended_index (1 / 4) (1 / 4) 100 = 7
   \<and> colorIndex (Some (1 / 4)) (1 / 4) 100 = 7
   \<and> colorIndex (Some (3 / 4)) (1 / 4) 100 = 0"
  using touched_colour_index [of "1 / 4" "1 / 4" 100]
    touched_colour_index [of "1 / 4" "3 / 4" 100]
  by (simp add: blended_index_def palette_def)

section \<open>The hero state machine's transitions\<close>

lemma heroState_effect [simp]: "heroState (scrollJackEffect a) = heroState a"
  by (simp add: scrollJackEffect_def)

lemma heroState_cleanup [simp]: "heroState (scrollJackCleanup a) = heroState a"
  by (simp add: scrollJackCleanup_def)

lemma heroState_commit [simp]: "heroState (commit old new) = heroState new"
  by (simp add: commit_def)

lemma timeouts_effect [simp]: "timeouts (scrollJackEffect a) = timeouts a"
  by (simp add: scrollJackEffect_def)

lemma timeouts_cleanup [simp]: "timeouts (scrollJackCleanup a) = timeouts a"
  by (simp add: scrollJackCleanup_def)

lemma timeouts_commit [simp]: "timeouts (commit old new) = timeouts new"
  by (simp add: commit_def)

lemma heroState_run_callback:
  "heroState (run_callback a c) = (case c of Swap \<Rightarrow> swapped | ShowModal \<Rightarrow> heroState a)"
  by (cases c) (simp_all add: run_callback_def)

lemma heroState_foldl:
  "heroState (foldl run_callback a cs) = (if Swap \<in> set cs then swapped else heroState a)"
proof (induction cs arbitrary: a)
  case Nil
  then show ?case by simp
next
  case (Cons c cs)
  then show ?case by (cases c) (simp_all add: heroState_run_callback)
qed

lemma heroState_elapse:
  "heroState (elapse d a) =
     (if \<exists>r. r \<le> d \<and> (r, Swap) \<in> set (timeouts a) then swapped else heroState a)"
  by (force simp: elapse_def Let_def heroState_foldl)

lemma step_wheel_down:
  assumes "heroState a = initial" "\<not> showModal a" "handleInput_attached a" "0 < dy"
  shows "heroState (step (Input (wheel dy)) a) = transitioning"
    and "timeouts (step (Input (wheel dy)) a) = timeouts a @ [(1500, Swap)]"
  using assms by (simp_all add: handleInput_def)

lemma step_wheel_up:
  assumes "dy \<le> 0"
  shows "step (Input (wheel dy)) a = a"
  using assms by (simp add: handleInput_def commit_def)

lemma unregistered_run_eq:
  "unregistered_run =
     \<lparr>heroState = initial, showModal = False, scrollY = 10,
      body_overflow = overflow_auto, timeouts = [], handleInput_attached = False\<rparr>"
  by (simp add: unregistered_run_def mount_def elapse_def run_callback_def commit_def
      scrollJackEffect_def scrollJackCleanup_def handleScrollReset_def)

text \<open>
  Claim C4, as stated, needs only the state \<open>initial\<close>, a scroll position below 50px
  and no modal. The effect registers \<^verbatim>\<open>handleInput\<close> only when it runs on a page
  scrolled at most 50px, and it runs again only when \<^verbatim>\<open>heroState\<close> or \<^verbatim>\<open>showModal\<close>
  changes. After the run above the three conditions hold and the listener is not
  registered: a downward wheel event leaves the state \<open>initial\<close>, and it is still
  \<open>initial\<close> 1500ms later.
\<close>

theorem hero_wheel_without_listener:
  "heroState unregistered_run = initial
   \<and> scrollY unregistered_run < 50
   \<and> showModal unregistered_run = False
   \<and> heroState (step (Input (wheel 120)) unregistered_run) = initial
   \<and> heroState (step (Elapse 1500) (step (Input (wheel 120)) unregistered_run)) = initial"
  by (simp add: unregistered_run_eq elapse_def)

text \<open>
  Claim C4, amended: let the hero be in state \<open>initial\<close> with the page scrolled less
  than 50px and no modal shown, and let \<^verbatim>\<open>handleInput\<close> be registered (the
  scroll-jacking effect last ran on a page scrolled at most 50px). A wheel event with
  positive \<open>deltaY\<close> moves the state to \<open>transitioning\<close>, and 1500ms later the state is
  \<open>swapped\<close> (and no sooner, unless an older swap was still pending); a wheel event
  with \<open>deltaY \<le> 0\<close> changes nothing at all.
\<close>

theorem hero_wheel_transition:
  assumes "heroState a = initial" "scrollY a < 50" "\<not> showModal a"
    and "handleInput_attached a"
  shows "(0 < dy \<longrightarrow>
           heroState (step (Input (wheel dy)) a) = transitioning \<and>
           heroState (step (Elapse 1500) (step (Input (wheel dy)) a)) = swapped \<and>
           (\<forall>d<1500. Swap \<notin> snd ` set (timeouts a) \<longrightarrow>
              heroState (step (Elapse d) (step (Input (wheel dy)) a)) = transitioning))
       \<and> (dy \<le> 0 \<longrightarrow> step (Input (wheel dy)) a = a)"
proof (intro conjI impI allI)
  let ?b = "step (Input (wheel dy)) a"
  assume dy: "0 < dy"
  have h: "heroState ?b = transitioning"
    and t: "timeouts ?b = timeouts a @ [(1500, Swap)]"
    using step_wheel_down [OF assms(1) assms(3) assms(4) dy] by simp_all
  show "heroState ?b = transitioning" by (rule h)
  have "heroState (elapse 1500 ?b) = swapped"
    unfolding heroState_elapse t by auto
  then show "heroState (step (Elapse 1500) ?b) = swapped" by simp
  fix d :: nat
  assume "d < 1500" "Swap \<notin> snd ` set (timeouts a)"
  then have "heroState (elapse d ?b) = transitioning"
    unfolding heroState_elapse t h by force
  then show "heroState (step (Elapse d) ?b) = transitioning" by simp
next
  assume "dy \<le> 0"
  then show "step (Input (wheel dy)) a = a"
    by (rule step_wheel_up)
qed

theorem hero_wheel_transition_witness:
  "heroState (mount 0) = initial \<and> scrollY (mount 0) < 50 \<and> \<not> showModal (mount 0)
   \<and> handleInput_attached (mount 0)
   \<and> heroState (step (Input (wheel 120)) (mount 0)) = transitioning
   \<and> heroState (step (Elapse 1500) (step (Input (wheel 120)) (mount 0))) = swapped
   \<and> heroState (step (Elapse 1499) (step (Input (wheel 120)) (mount 0))) = transitioning
   \<and> step (Input (wheel (- 120))) (mount 0) = mount 0"
proof -
  have h: "heroState (mount 0) = initial" "scrollY (mount 0) < 50" "\<not> showModal (mount 0)"
    "handleInput_attached (mount 0)"
    and t: "Swap \<notin> snd ` set (timeouts (mount 0))"
    by (simp_all add: mount_def scrollJackEffect_def)
  show ?thesis
    using h t hero_wheel_transition [OF h, of 120] hero_wheel_transition [OF h, of "- 120"]
    by simp
qed

text \<open>
  Claim C9: a scroll event that finds the hero \<open>swapped\<close> and the page scrolled less
  than 50px resets the state to \<open>initial\<close>; a scroll event that finds any other state
  leaves the state as it is.
\<close>

theorem scroll_reset_only_from_swapped:
  "(heroState a = swapped \<and> y < 50 \<longrightarrow> heroState (step (Scroll y) a) = initial)
   \<and> (heroState a \<noteq> swapped \<longrightarrow> heroState (step (Scroll y) a) = heroState a)"
  by (simp add: handleScrollReset_def)

theorem scroll_reset_only_from_swapped_witness:
  "heroState (mount 300) = swapped
   \<and> heroState (step (Scroll 10) (mount 300)) = initial
   \<and> heroState (step (Scroll 10) (step (Input (wheel 120)) (mount 0))) = transitioning"
  using scroll_reset_only_from_swapped [of "mount 300" 10]
    scroll_reset_only_from_swapped [of "step (Input (wheel 120)) (mount 0)" 10]
  by (simp add: mount_def scrollJackEffect_def handleInput_def)

end
